theory Spec2Isabelle
  imports Complex_Main
begin

section \<open>The HubSpot integration adapter: OAuth state and credential lifecycle, item fetch\<close>

text \<open>
  The development embeds \<^verbatim>\<open>backend/redis_client.py\<close> and
  \<^verbatim>\<open>backend/integrations/hubspot.py\<close>. Every coroutine becomes a function from the
  store it is started in to its outcome and the store it leaves behind; every exception the
  Python raises is a value. The store is the process-local fallback of
  \<^verbatim>\<open>redis_client.py\<close> (the branch \<^verbatim>\<open>USE_REDIS = False\<close>): the Redis server of
  the other branch is an external service.
\<close>

subsection \<open>Python values\<close>

text \<open>
  The values that \<^verbatim>\<open>json.loads\<close> produces and the program passes around: \<^verbatim>\<open>None\<close>,
  booleans, integers, strings, lists and dictionaries (in insertion order, keys distinct).
  Numbers with a fraction or an exponent (Python floats) are not represented.
\<close>

datatype json =
    JNull
  | JBool bool
  | JInt int
  | JStr string
  | JArr "json list"
  | JObj "(string \<times> json) list"

text \<open>The exceptions that the modelled code can raise by itself or receive from a library call.\<close>

datatype exn =
    TypeError
  | AttributeError
  | JSONDecodeError
  | KeyError
  | TransportError string

text \<open>
  The \<^verbatim>\<open>detail\<close> of an \<^verbatim>\<open>HTTPException\<close>: a fixed or provider-supplied text, or
  \<^verbatim>\<open>f'Error fetching HubSpot data: {str(e)}'\<close>, kept as the exception \<^verbatim>\<open>e\<close> it quotes.
\<close>

datatype detail =
    Text string
  | Error_fetching exn

text \<open>
  How a handler fails: by an \<^verbatim>\<open>HTTPException\<close> it raises itself, or by an exception that
  nothing catches.
\<close>

datatype failure =
    HTTPException int detail
  | Uncaught exn

text \<open>
  Library functions the repository calls but does not define: the parser and the printer of
  the \<^verbatim>\<open>json\<close> module on strings (\<open>None\<close> where the parser raises), and the built-in
  \<^verbatim>\<open>repr\<close>, which is what an f-string shows of a value that is not a string.
\<close>

record pylib =
  parse_json :: "string \<Rightarrow> json option"
  print_json :: "json \<Rightarrow> string"
  repr_value :: "json \<Rightarrow> string"

definition and_then :: "'e + 'a \<Rightarrow> ('a \<Rightarrow> 'e + 'b) \<Rightarrow> 'e + 'b" where
  "and_then m f = (case m of Inl e \<Rightarrow> Inl e | Inr x \<Rightarrow> f x)"

text \<open>\<^verbatim>\<open>bool(v)\<close>, as \<^verbatim>\<open>if v\<close> and \<^verbatim>\<open>not v\<close> use it.\<close>

fun truthy :: "json \<Rightarrow> bool" where
  "truthy JNull = False"
| "truthy (JBool b) = b"
| "truthy (JInt i) = (i \<noteq> 0)"
| "truthy (JStr s) = (s \<noteq> [])"
| "truthy (JArr xs) = (xs \<noteq> [])"
| "truthy (JObj kvs) = (kvs \<noteq> [])"

text \<open>The value of \<^verbatim>\<open>d.get(k)\<close> for a query parameter or a store entry: a string or \<^verbatim>\<open>None\<close>.\<close>

definition py_of_option :: "string option \<Rightarrow> json" where
  "py_of_option v = (case v of None \<Rightarrow> JNull | Some s \<Rightarrow> JStr s)"

text \<open>
  \<^verbatim>\<open>json.loads(v)\<close>: a \<^verbatim>\<open>TypeError\<close> unless \<^verbatim>\<open>v\<close> is a string, a
  \<^verbatim>\<open>JSONDecodeError\<close> when the string is not a JSON document.
\<close>

definition json_loads :: "pylib \<Rightarrow> json \<Rightarrow> exn + json" where
  "json_loads lib v =
     (case v of
        JStr s \<Rightarrow> (case parse_json lib s of None \<Rightarrow> Inl JSONDecodeError | Some j \<Rightarrow> Inr j)
      | _ \<Rightarrow> Inl TypeError)"

text \<open>\<^verbatim>\<open>v.get(k, d)\<close>: the value under the key, or the default; only a dictionary has the method.\<close>

definition dict_get :: "(string \<times> json) list \<Rightarrow> string \<Rightarrow> json \<Rightarrow> json" where
  "dict_get kvs k d = (case map_of kvs k of None \<Rightarrow> d | Some w \<Rightarrow> w)"

definition py_get :: "json \<Rightarrow> string \<Rightarrow> json \<Rightarrow> exn + json" where
  "py_get v k d = (case v of JObj kvs \<Rightarrow> Inr (dict_get kvs k d) | _ \<Rightarrow> Inl AttributeError)"

text \<open>\<^verbatim>\<open>str(v)\<close>, which formats a value inside an f-string.\<close>

definition py_str :: "pylib \<Rightarrow> json \<Rightarrow> string" where
  "py_str lib v = (case v of JStr s \<Rightarrow> s | _ \<Rightarrow> repr_value lib v)"

text \<open>The number a boolean or an integer compares as.\<close>

fun num_of :: "json \<Rightarrow> int option" where
  "num_of (JBool b) = Some (if b then 1 else 0)"
| "num_of (JInt i) = Some i"
| "num_of _ = None"

text \<open>
  \<^verbatim>\<open>a == b\<close>: numbers by value (\<^verbatim>\<open>True == 1\<close>), lists by position, dictionaries key by
  key whatever the order.
\<close>

fun py_eq :: "json \<Rightarrow> json \<Rightarrow> bool" where
  "py_eq JNull b = (b = JNull)"
| "py_eq (JBool x) b = (num_of b = Some (if x then 1 else 0))"
| "py_eq (JInt i) b = (num_of b = Some i)"
| "py_eq (JStr s) b = (b = JStr s)"
| "py_eq (JArr xs) b = (case b of JArr ys \<Rightarrow> list_all2 py_eq xs ys | _ \<Rightarrow> False)"
| "py_eq (JObj kvs) b =
     (case b of
        JObj kws \<Rightarrow>
          length kvs = length kws \<and>
          list_all (\<lambda>kv. case map_of kws (fst kv) of None \<Rightarrow> False | Some w \<Rightarrow> py_eq (snd kv) w) kvs
      | _ \<Rightarrow> False)"

text \<open>
  \<^verbatim>\<open>a + b\<close>: concatenation of two strings or two lists, the sum of two numbers, a
  \<^verbatim>\<open>TypeError\<close> for every other pair.
\<close>

definition py_add :: "json \<Rightarrow> json \<Rightarrow> exn + json" where
  "py_add a b =
     (case (a, b) of
        (JStr s, JStr t) \<Rightarrow> Inr (JStr (s @ t))
      | (JArr xs, JArr ys) \<Rightarrow> Inr (JArr (xs @ ys))
      | _ \<Rightarrow> (case (num_of a, num_of b) of
                (Some m, Some n) \<Rightarrow> Inr (JInt (m + n))
              | _ \<Rightarrow> Inl TypeError))"

text \<open>
  The elements a \<^verbatim>\<open>for\<close> loop draws from a value: the items of a list, the keys of a
  dictionary, the characters of a string; anything else is not iterable.
\<close>

definition py_iter :: "json \<Rightarrow> exn + json list" where
  "py_iter v =
     (case v of
        JArr xs \<Rightarrow> Inr xs
      | JObj kvs \<Rightarrow> Inr (map (\<lambda>kv. JStr (fst kv)) kvs)
      | JStr s \<Rightarrow> Inr (map (\<lambda>c. JStr [c]) s)
      | _ \<Rightarrow> Inl TypeError)"

subsection \<open>The store of \<^verbatim>\<open>redis_client.py\<close>\<close>

text \<open>
  \<^verbatim>\<open>_memory_storage\<close> and \<^verbatim>\<open>_memory_expiry\<close>. A reading of \<^verbatim>\<open>time.time()\<close> is
  a parameter \<open>now\<close> of the operation that takes it.
\<close>

record store =
  memory_storage :: "string \<rightharpoonup> string"
  memory_expiry :: "string \<rightharpoonup> real"

definition add_key_value_redis :: "string \<Rightarrow> string \<Rightarrow> int option \<Rightarrow> real \<Rightarrow> store \<Rightarrow> store" where
  "add_key_value_redis key val expire now c =
     (let c1 = c\<lparr>memory_storage := (memory_storage c)(key \<mapsto> val)\<rparr>
      in case expire of
           None \<Rightarrow> c1
         | Some n \<Rightarrow>
             if n \<noteq> 0 then c1\<lparr>memory_expiry := (memory_expiry c1)(key \<mapsto> now + of_int n)\<rparr>
             else c1)"

text \<open>
  \<^verbatim>\<open>del _memory_storage[key]\<close> raises \<^verbatim>\<open>KeyError\<close> for a key that has an expiry but no
  value; nothing has been changed by then.
\<close>

definition get_value_redis :: "string \<Rightarrow> real \<Rightarrow> store \<Rightarrow> (exn + string option) \<times> store" where
  "get_value_redis key now c =
     (case memory_expiry c key of
        Some t \<Rightarrow>
          if now > t then
            (case memory_storage c key of
               None \<Rightarrow> (Inl KeyError, c)
             | Some _ \<Rightarrow>
                 (Inr None,
                  c\<lparr>memory_storage := (memory_storage c)(key := None),
                    memory_expiry := (memory_expiry c)(key := None)\<rparr>))
          else (Inr (memory_storage c key), c)
      | None \<Rightarrow> (Inr (memory_storage c key), c))"

text \<open>
  The branch \<^verbatim>\<open>USE_REDIS = False\<close> of \<^verbatim>\<open>delete_key_redis\<close>. The other branch,
  \<^verbatim>\<open>await redis_client.delete(key)\<close>, waits for the server and is not represented.
\<close>

definition delete_key_redis :: "string \<Rightarrow> store \<Rightarrow> store" where
  "delete_key_redis key c =
     (let c1 = (if key \<in> dom (memory_storage c)
                then c\<lparr>memory_storage := (memory_storage c)(key := None)\<rparr> else c)
      in if key \<in> dom (memory_expiry c1)
         then c1\<lparr>memory_expiry := (memory_expiry c1)(key := None)\<rparr> else c1)"

subsection \<open>\<^verbatim>\<open>hubspot.py\<close>: the OAuth flow\<close>

definition CLIENT_ID :: string where
  "CLIENT_ID = ''your_hubspot_client_id''"

definition CLIENT_SECRET :: string where
  "CLIENT_SECRET = ''your_hubspot_client_secret''"

definition REDIRECT_URI :: string where
  "REDIRECT_URI = ''http://localhost:8000/integrations/hubspot/oauth2callback''"

definition SCOPE :: string where
  "SCOPE = ''contacts%20oauth''"

definition authorization_url :: string where
  "authorization_url =
     ''https://app.hubspot.com/oauth/authorize?client_id='' @ CLIENT_ID @
     ''&redirect_uri='' @ REDIRECT_URI @ ''&scope='' @ SCOPE"

text \<open>
  The two families of keys, \<^verbatim>\<open>f'hubspot_state:{org_id}:{user_id}'\<close> and
  \<^verbatim>\<open>f'hubspot_credentials:{org_id}:{user_id}'\<close>, from the formatted identifiers.
\<close>

definition state_key :: "string \<Rightarrow> string \<Rightarrow> string" where
  "state_key org_id user_id = ''hubspot_state:'' @ org_id @ '':'' @ user_id"

definition credentials_key :: "string \<Rightarrow> string \<Rightarrow> string" where
  "credentials_key org_id user_id = ''hubspot_credentials:'' @ org_id @ '':'' @ user_id"

text \<open>
  \<^verbatim>\<open>authorize_hubspot\<close>. The identifiers are strings; \<open>nonce\<close> is the value that
  \<^verbatim>\<open>secrets.token_urlsafe(32)\<close> drew. The result is the URL and the store.
\<close>

definition state_data_of :: "string \<Rightarrow> string \<Rightarrow> string \<Rightarrow> json" where
  "state_data_of nonce user_id org_id =
     JObj [(''state'', JStr nonce), (''user_id'', JStr user_id), (''org_id'', JStr org_id)]"

definition authorize_hubspot ::
  "pylib \<Rightarrow> string \<Rightarrow> real \<Rightarrow> string \<Rightarrow> string \<Rightarrow> store \<Rightarrow> string \<times> store" where
  "authorize_hubspot lib nonce now user_id org_id c =
     (let encoded_state = print_json lib (state_data_of nonce user_id org_id);
          c1 = add_key_value_redis (state_key org_id user_id) encoded_state (Some 600) now c
      in (authorization_url @ ''&state='' @ encoded_state, c1))"

text \<open>
  The callback request is its query parameters, as \<^verbatim>\<open>request.query_params.get\<close> reads
  them. The token endpoint is a function from the form that is posted to the response or to
  the exception of the HTTP client; \<^verbatim>\<open>response.json()\<close> is \<open>None\<close> where it raises.
\<close>

type_synonym request = "string \<rightharpoonup> string"

record response =
  status_code :: int
  json_body :: "json option"

record token_form =
  grant_type :: string
  client_id :: string
  client_secret :: string
  redirect_uri :: string
  code :: "string option"

datatype html_response = HTMLResponse string

definition close_window_script :: string where
  "close_window_script =
     [CHR 0x0A] @ ''    <html>'' @ [CHR 0x0A] @
     ''        <script>'' @ [CHR 0x0A] @
     ''            window.close();'' @ [CHR 0x0A] @
     ''        </script>'' @ [CHR 0x0A] @
     ''    </html>'' @ [CHR 0x0A] @ ''    ''"

definition state_does_not_match :: failure where
  "state_does_not_match = HTTPException 400 (Text ''State does not match.'')"

text \<open>
  \<^verbatim>\<open>not saved_state or original_state != json.loads(saved_state).get('state')\<close>: the
  second operand is evaluated, and can raise, only when the first is false.
\<close>

definition state_mismatch :: "pylib \<Rightarrow> json \<Rightarrow> json \<Rightarrow> exn + bool" where
  "state_mismatch lib saved_state original_state =
     (if \<not> truthy saved_state then Inr True
      else and_then (json_loads lib saved_state) (\<lambda>saved.
           and_then (py_get saved ''state'' JNull) (\<lambda>saved_nonce.
           Inr (\<not> py_eq original_state saved_nonce))))"

text \<open>The form that is posted to \<^verbatim>\<open>https://api.hubapi.com/oauth/v1/token\<close>.\<close>

definition token_request :: "string option \<Rightarrow> token_form" where
  "token_request code_param =
     \<lparr>grant_type = ''authorization_code'', client_id = CLIENT_ID,
      client_secret = CLIENT_SECRET, redirect_uri = REDIRECT_URI, code = code_param\<rparr>"

text \<open>
  The part of \<^verbatim>\<open>oauth2callback_hubspot\<close> after the state has been accepted.
  \<^verbatim>\<open>asyncio.gather\<close> starts the POST and \<^verbatim>\<open>delete_key_redis\<close> together; over this
  store the deletion has no suspension point, so it has run by the time the handler is resumed,
  with the response or with the exception of the POST. That holds for this store only: with
  the Redis client the deletion waits for the server, and an exception of the POST can resume
  the handler while the deletion is pending. How the two tasks interleave there is not
  represented, and nothing below speaks of it. \<open>now\<close> is the clock reading of the final
  \<^verbatim>\<open>add_key_value_redis\<close>.
\<close>

definition exchange_and_store ::
  "pylib \<Rightarrow> (token_form \<Rightarrow> exn + response) \<Rightarrow> real \<Rightarrow> string option \<Rightarrow> string \<Rightarrow> string \<Rightarrow>
   store \<Rightarrow> (failure + html_response) \<times> store" where
  "exchange_and_store lib post now code_param org_id user_id c =
     (let c1 = delete_key_redis (state_key org_id user_id) c
      in case post (token_request code_param) of
           Inl e \<Rightarrow> (Inl (Uncaught e), c1)
         | Inr resp \<Rightarrow>
             (case json_body resp of
                None \<Rightarrow> (Inl (Uncaught JSONDecodeError), c1)
              | Some j \<Rightarrow>
                  (Inr (HTMLResponse close_window_script),
                   add_key_value_redis (credentials_key org_id user_id) (print_json lib j)
                     (Some 600) now c1)))"

text \<open>
  \<^verbatim>\<open>oauth2callback_hubspot\<close> from the line that reads \<^verbatim>\<open>code\<close> on. \<open>t_get\<close> and
  \<open>t_add\<close> are the clock readings of the lookup of the saved state and of the write of the
  credentials.
\<close>

definition accept_callback ::
  "pylib \<Rightarrow> (token_form \<Rightarrow> exn + response) \<Rightarrow> real \<Rightarrow> real \<Rightarrow> request \<Rightarrow> store \<Rightarrow>
   (failure + html_response) \<times> store" where
  "accept_callback lib post t_get t_add req c =
     (case and_then (json_loads lib (py_of_option (req ''state''))) (\<lambda>state_data.
           and_then (py_get state_data ''state'' JNull) (\<lambda>original_state.
           and_then (py_get state_data ''user_id'' JNull) (\<lambda>user_id.
           and_then (py_get state_data ''org_id'' JNull) (\<lambda>org_id.
           Inr (original_state, py_str lib user_id, py_str lib org_id))))) of
        Inl e \<Rightarrow> (Inl (Uncaught e), c)
      | Inr (original_state, user_id, org_id) \<Rightarrow>
          (case get_value_redis (state_key org_id user_id) t_get c of
             (Inl e, c1) \<Rightarrow> (Inl (Uncaught e), c1)
           | (Inr saved_state, c1) \<Rightarrow>
               (case state_mismatch lib (py_of_option saved_state) original_state of
                  Inl e \<Rightarrow> (Inl (Uncaught e), c1)
                | Inr True \<Rightarrow> (Inl state_does_not_match, c1)
                | Inr False \<Rightarrow>
                    exchange_and_store lib post t_add (req ''code'') org_id user_id c1)))"

text \<open>
  \<^verbatim>\<open>oauth2callback_hubspot\<close>: \<^verbatim>\<open>if request.query_params.get('error')\<close> holds for an
  \<^verbatim>\<open>error\<close> parameter that is there and not the empty string.
\<close>

definition oauth2callback_hubspot ::
  "pylib \<Rightarrow> (token_form \<Rightarrow> exn + response) \<Rightarrow> real \<Rightarrow> real \<Rightarrow> request \<Rightarrow> store \<Rightarrow>
   (failure + html_response) \<times> store" where
  "oauth2callback_hubspot lib post t_get t_add req c =
     (case req ''error'' of
        None \<Rightarrow> accept_callback lib post t_get t_add req c
      | Some e \<Rightarrow>
          if e \<noteq> [] then (Inl (HTTPException 400 (Text e)), c)
          else accept_callback lib post t_get t_add req c)"

definition no_credentials_found :: failure where
  "no_credentials_found = HTTPException 400 (Text ''No credentials found.'')"

text \<open>\<^verbatim>\<open>get_hubspot_credentials\<close>.\<close>

definition get_hubspot_credentials ::
  "pylib \<Rightarrow> real \<Rightarrow> string \<Rightarrow> string \<Rightarrow> store \<Rightarrow> (failure + json) \<times> store" where
  "get_hubspot_credentials lib now user_id org_id c =
     (case get_value_redis (credentials_key org_id user_id) now c of
        (Inl e, c1) \<Rightarrow> (Inl (Uncaught e), c1)
      | (Inr credentials, c1) \<Rightarrow>
          if \<not> truthy (py_of_option credentials) then (Inl no_credentials_found, c1)
          else
            (case json_loads lib (py_of_option credentials) of
               Inl e \<Rightarrow> (Inl (Uncaught e), c1)
             | Inr parsed \<Rightarrow>
                 if \<not> truthy parsed then (Inl no_credentials_found, c1)
                 else (Inr parsed, delete_key_redis (credentials_key org_id user_id) c1)))"

subsection \<open>\<^verbatim>\<open>hubspot.py\<close>: the item fetch\<close>

text \<open>
  Modelled from the spec: the class \<^verbatim>\<open>IntegrationItem\<close> of
  \<^verbatim>\<open>integrations/integration_item.py\<close> is not among the sources. It is the spec's
  NormalizedItem, "a plain data record with no behavior", holding the six values its
  constructor is given here.
\<close>

record integration_item =
  item_id :: json
  item_type :: string
  name :: json
  creation_time :: json
  last_modified_time :: json
  url :: string

text \<open>A loop body run over the elements in order; the first exception ends the loop.\<close>

fun collect :: "('a \<Rightarrow> exn + 'b) \<Rightarrow> 'a list \<Rightarrow> exn + 'b list" where
  "collect f [] = Inr []"
| "collect f (x # xs) =
     (case f x of
        Inl e \<Rightarrow> Inl e
      | Inr y \<Rightarrow> (case collect f xs of Inl e \<Rightarrow> Inl e | Inr ys \<Rightarrow> Inr (y # ys)))"

text \<open>\<^verbatim>\<open>create_integration_item_metadata_object\<close>; the arguments of the constructor are
  evaluated in the order they are written.\<close>

definition create_integration_item_metadata_object ::
  "pylib \<Rightarrow> json \<Rightarrow> string \<Rightarrow> exn + integration_item" where
  "create_integration_item_metadata_object lib response_json type_arg =
     and_then (py_get response_json ''id'' JNull) (\<lambda>i.
     and_then (py_get response_json ''properties'' (JObj [])) (\<lambda>props.
     and_then (py_get props ''firstname'' (JStr [])) (\<lambda>firstname.
     and_then (py_add firstname (JStr '' '')) (\<lambda>first_and_space.
     and_then (py_get props ''lastname'' (JStr [])) (\<lambda>lastname.
     and_then (py_add first_and_space lastname) (\<lambda>full_name.
     and_then (py_get response_json ''createdAt'' JNull) (\<lambda>created.
     and_then (py_get response_json ''updatedAt'' JNull) (\<lambda>updated.
     Inr \<lparr>item_id = i, item_type = type_arg, name = full_name, creation_time = created,
          last_modified_time = updated,
          url = ''https://app.hubspot.com/contacts/'' @ py_str lib i\<rparr>))))))))"

text \<open>The bodies of the two other loops of \<^verbatim>\<open>get_items_hubspot\<close>.\<close>

definition company_item :: "pylib \<Rightarrow> json \<Rightarrow> exn + integration_item" where
  "company_item lib company =
     and_then (py_get company ''id'' JNull) (\<lambda>i.
     and_then (py_get company ''properties'' (JObj [])) (\<lambda>props.
     and_then (py_get props ''name'' (JStr ''Unnamed Company'')) (\<lambda>n.
     and_then (py_get company ''createdAt'' JNull) (\<lambda>created.
     and_then (py_get company ''updatedAt'' JNull) (\<lambda>updated.
     Inr \<lparr>item_id = i, item_type = ''Company'', name = n, creation_time = created,
          last_modified_time = updated,
          url = ''https://app.hubspot.com/contacts/'' @ py_str lib i\<rparr>)))))"

definition deal_item :: "pylib \<Rightarrow> json \<Rightarrow> exn + integration_item" where
  "deal_item lib deal =
     and_then (py_get deal ''id'' JNull) (\<lambda>i.
     and_then (py_get deal ''properties'' (JObj [])) (\<lambda>props.
     and_then (py_get props ''dealname'' (JStr ''Unnamed Deal'')) (\<lambda>n.
     and_then (py_get deal ''createdAt'' JNull) (\<lambda>created.
     and_then (py_get deal ''updatedAt'' JNull) (\<lambda>updated.
     Inr \<lparr>item_id = i, item_type = ''Deal'', name = n, creation_time = created,
          last_modified_time = updated,
          url = ''https://app.hubspot.com/contacts/'' @ py_str lib i\<rparr>)))))"

text \<open>
  A call of \<^verbatim>\<open>requests.get\<close>, and the remote side as a function from the call to the
  response or to the exception that \<^verbatim>\<open>requests.get\<close> raises.
\<close>

record get_request =
  get_url :: string
  authorization :: string
  content_type :: string
  limit :: int

definition hubspot_get :: "pylib \<Rightarrow> json \<Rightarrow> string \<Rightarrow> int \<Rightarrow> get_request" where
  "hubspot_get lib access_token u n =
     \<lparr>get_url = u, authorization = ''Bearer '' @ py_str lib access_token,
      content_type = ''application/json'', limit = n\<rparr>"

definition contacts_request :: "pylib \<Rightarrow> json \<Rightarrow> get_request" where
  "contacts_request lib access_token =
     hubspot_get lib access_token ''https://api.hubapi.com/crm/v3/objects/contacts'' 100"

definition companies_request :: "pylib \<Rightarrow> json \<Rightarrow> get_request" where
  "companies_request lib access_token =
     hubspot_get lib access_token ''https://api.hubapi.com/crm/v3/objects/companies'' 50"

definition deals_request :: "pylib \<Rightarrow> json \<Rightarrow> get_request" where
  "deals_request lib access_token =
     hubspot_get lib access_token ''https://api.hubapi.com/crm/v3/objects/deals'' 50"

text \<open>The body of the first loop: the call with \<^verbatim>\<open>'Contact'\<close>.\<close>

definition contact_item :: "pylib \<Rightarrow> json \<Rightarrow> exn + integration_item" where
  "contact_item lib contact = create_integration_item_metadata_object lib contact ''Contact''"

text \<open>
  What one endpoint contributes once its response is there: nothing unless the status is 200,
  else one item for each element of \<^verbatim>\<open>response.json().get('results', [])\<close>.
\<close>

definition endpoint_items ::
  "(json \<Rightarrow> exn + integration_item) \<Rightarrow> response \<Rightarrow> exn + integration_item list" where
  "endpoint_items mk resp =
     (if status_code resp = 200 then
        (case json_body resp of
           None \<Rightarrow> Inl JSONDecodeError
         | Some data \<Rightarrow>
             and_then (py_get data ''results'' (JArr [])) (\<lambda>results.
             and_then (py_iter results) (collect mk)))
      else Inr [])"

text \<open>
  One endpoint inside the \<^verbatim>\<open>try\<close> block: the request, which can raise, then the items of
  its response, which can raise as well.
\<close>

definition endpoint_outcome ::
  "(get_request \<Rightarrow> exn + response) \<Rightarrow> (json \<Rightarrow> exn + integration_item) \<Rightarrow> get_request \<Rightarrow>
   exn + integration_item list" where
  "endpoint_outcome http mk r = and_then (http r) (endpoint_items mk)"

text \<open>
  The \<^verbatim>\<open>try\<close> block of \<^verbatim>\<open>get_items_hubspot\<close>, with the calls of \<^verbatim>\<open>requests.get\<close>
  made until it ends. An exception of a request, of \<^verbatim>\<open>response.json()\<close> or of a loop body
  leaves the block at once.
\<close>

definition fetch_all ::
  "pylib \<Rightarrow> (get_request \<Rightarrow> exn + response) \<Rightarrow> json \<Rightarrow>
   (exn + integration_item list) \<times> get_request list" where
  "fetch_all lib http access_token =
     (let r1 = contacts_request lib access_token;
          r2 = companies_request lib access_token;
          r3 = deals_request lib access_token
      in case endpoint_outcome http (contact_item lib) r1 of
           Inl e \<Rightarrow> (Inl e, [r1])
         | Inr contacts \<Rightarrow>
             (case endpoint_outcome http (company_item lib) r2 of
                Inl e \<Rightarrow> (Inl e, [r1, r2])
              | Inr companies \<Rightarrow>
                  (case endpoint_outcome http (deal_item lib) r3 of
                     Inl e \<Rightarrow> (Inl e, [r1, r2, r3])
                   | Inr deals \<Rightarrow> (Inr (contacts @ companies @ deals), [r1, r2, r3]))))"

definition no_access_token :: failure where
  "no_access_token = HTTPException 400 (Text ''No access token found in credentials.'')"

text \<open>\<^verbatim>\<open>get_items_hubspot\<close>: the outcome and the calls of \<^verbatim>\<open>requests.get\<close> it made.\<close>

definition get_items_hubspot ::
  "pylib \<Rightarrow> (get_request \<Rightarrow> exn + response) \<Rightarrow> json \<Rightarrow>
   (failure + integration_item list) \<times> get_request list" where
  "get_items_hubspot lib http credentials =
     (case and_then (json_loads lib credentials) (\<lambda>parsed. py_get parsed ''access_token'' JNull) of
        Inl e \<Rightarrow> (Inl (Uncaught e), [])
      | Inr access_token \<Rightarrow>
          if \<not> truthy access_token then (Inl no_access_token, [])
          else
            (case fetch_all lib http access_token of
               (Inl e, calls) \<Rightarrow> (Inl (HTTPException 500 (Error_fetching e)), calls)
             | (Inr items, calls) \<Rightarrow> (Inr items, calls)))"

subsection \<open>The field projection of the spec\<close>










subsection \<open>Sample values\<close>

text \<open>
  The \<^verbatim>\<open>json\<close> module on the five documents the examples use, each with the value it
  parses to and is printed from; \<^verbatim>\<open>repr(None)\<close>.
\<close>

definition sample_state_doc :: string where
  \<open>sample_state_doc = ''{"state": "n", "user_id": "u", "org_id": "o"}''\<close>

definition forged_state_doc :: string where
  \<open>forged_state_doc = ''{"state": "x", "user_id": "u", "org_id": "o"}''\<close>

definition sample_token_doc :: string where
  \<open>sample_token_doc = ''{"access_token": "t"}''\<close>

definition sample_token :: json where
  "sample_token = JObj [(''access_token'', JStr ''t'')]"

definition sample_documents :: "(string \<times> json) list" where
  "sample_documents =
     [(sample_state_doc, state_data_of ''n'' ''u'' ''o''),
      (forged_state_doc, state_data_of ''x'' ''u'' ''o''),
      (sample_token_doc, sample_token),
      (''{}'', JObj []),
      (''[]'', JArr [])]"

definition sample_lib :: pylib where
  "sample_lib =
     \<lparr>parse_json = map_of sample_documents,
      print_json = (\<lambda>j. case map_of (map (\<lambda>p. (snd p, fst p)) sample_documents) j of
                           None \<Rightarrow> [] | Some s \<Rightarrow> s),
      repr_value = (\<lambda>v. if v = JNull then ''None'' else [])\<rparr>"

definition empty_store :: store where
  "empty_store = \<lparr>memory_storage = Map.empty, memory_expiry = Map.empty\<rparr>"

text \<open>A token endpoint that answers every form with status 200 and the given body.\<close>

definition token_endpoint :: "json \<Rightarrow> token_form \<Rightarrow> exn + response" where
  "token_endpoint j form = Inr \<lparr>status_code = 200, json_body = Some j\<rparr>"

text \<open>
  The store after \<^verbatim>\<open>authorize_hubspot('u', 'o')\<close> at time 0 with the nonce \<^verbatim>\<open>'n'\<close>; the
  callback that carries the state of the returned URL; one with another nonce; one with an
  empty \<^verbatim>\<open>error\<close> parameter; one with no parameters.
\<close>

definition sample_authorized :: store where
  "sample_authorized = snd (authorize_hubspot sample_lib ''n'' 0 ''u'' ''o'' empty_store)"

definition sample_request :: request where
  "sample_request = [''state'' \<mapsto> sample_state_doc, ''code'' \<mapsto> ''abc'']"

definition forged_request :: request where
  "forged_request = [''state'' \<mapsto> forged_state_doc, ''code'' \<mapsto> ''abc'']"

definition empty_error_request :: request where
  "empty_error_request = [''error'' \<mapsto> [], ''state'' \<mapsto> sample_state_doc, ''code'' \<mapsto> ''abc'']"

definition denied_request :: request where
  "denied_request = [''error'' \<mapsto> ''access_denied'']"

definition bare_request :: request where
  "bare_request = Map.empty"

text \<open>Callbacks whose state is not JSON, and is JSON but not an object.\<close>

definition garbled_request :: request where
  "garbled_request = [''state'' \<mapsto> ''not json'', ''code'' \<mapsto> ''abc'']"

definition list_request :: request where
  "list_request = [''state'' \<mapsto> ''[]'', ''code'' \<mapsto> ''abc'']"

text \<open>The store after the callback, with the given body of the token response.\<close>

definition after_callback :: "json \<Rightarrow> store" where
  "after_callback j =
     snd (oauth2callback_hubspot sample_lib (token_endpoint j) 0 0 sample_request sample_authorized)"

text \<open>
  The contact of the spec's example and its item; a contact whose \<^verbatim>\<open>firstname\<close> is
  \<^verbatim>\<open>null\<close>; a company and a deal without a name.
\<close>

definition spec_contact :: json where
  "spec_contact =
     JObj [(''id'', JStr ''1''),
           (''properties'', JObj [(''firstname'', JStr ''A''), (''lastname'', JStr ''B'')]),
           (''createdAt'', JStr ''t1''), (''updatedAt'', JStr ''t2'')]"

definition spec_contact_item :: integration_item where
  "spec_contact_item =
     \<lparr>item_id = JStr ''1'', item_type = ''Contact'', name = JStr ''A B'',
      creation_time = JStr ''t1'', last_modified_time = JStr ''t2'',
      url = ''https://app.hubspot.com/contacts/1''\<rparr>"

definition null_firstname_contact :: json where
  "null_firstname_contact =
     JObj [(''id'', JStr ''2''),
           (''properties'', JObj [(''firstname'', JNull), (''lastname'', JStr ''B'')])]"

definition nameless_record :: "(string \<times> json) list" where
  "nameless_record = [(''id'', JStr ''7''), (''properties'', JObj [(''domain'', JStr ''d'')])]"

text \<open>
  Remote sides: every endpoint answers with the given status and an empty \<^verbatim>\<open>results\<close>
  list, but the contacts endpoint answers 200 with the given contacts.
\<close>

definition results_body :: "json list \<Rightarrow> json" where
  "results_body rs = JObj [(''results'', JArr rs)]"

definition contacts_only :: "json list \<Rightarrow> int \<Rightarrow> get_request \<Rightarrow> exn + response" where
  "contacts_only contacts other_status r =
     (if get_url r = ''https://api.hubapi.com/crm/v3/objects/contacts''
      then Inr \<lparr>status_code = 200, json_body = Some (results_body contacts)\<rparr>
      else Inr \<lparr>status_code = other_status, json_body = Some (results_body [])\<rparr>)"

text \<open>A remote side whose companies endpoint cannot be reached.\<close>

definition companies_down :: "get_request \<Rightarrow> exn + response" where
  "companies_down r =
     (if get_url r = ''https://api.hubapi.com/crm/v3/objects/companies''
      then Inl (TransportError ''timed out'')
      else Inr \<lparr>status_code = 200, json_body = Some (results_body [])\<rparr>)"







section \<open>Properties\<close>

subsection \<open>The store\<close>

lemmas sample_defs =
  sample_state_doc_def forged_state_doc_def sample_token_doc_def sample_token_def
  sample_documents_def sample_lib_def empty_store_def token_endpoint_def
  sample_authorized_def sample_request_def forged_request_def
  empty_error_request_def denied_request_def bare_request_def garbled_request_def
  list_request_def after_callback_def

lemmas fetch_defs =
  get_items_hubspot_def fetch_all_def endpoint_outcome_def endpoint_items_def
  contacts_request_def companies_request_def deals_request_def hubspot_get_def
  contact_item_def create_integration_item_metadata_object_def company_item_def deal_item_def
  py_iter_def py_add_def json_loads_def py_get_def dict_get_def py_str_def and_then_def
  no_access_token_def

lemmas fetch_sample_defs =
  sample_state_doc_def forged_state_doc_def sample_token_doc_def sample_token_def
  sample_documents_def sample_lib_def state_data_of_def spec_contact_def spec_contact_item_def null_firstname_contact_def nameless_record_def
  results_body_def contacts_only_def companies_down_def

lemmas model_defs =
  oauth2callback_hubspot_def accept_callback_def exchange_and_store_def state_mismatch_def
  authorize_hubspot_def get_hubspot_credentials_def state_data_of_def token_request_def
  json_loads_def py_of_option_def py_get_def dict_get_def py_str_def and_then_def
  get_value_redis_def add_key_value_redis_def delete_key_redis_def
  state_key_def credentials_key_def

lemma delete_key_redis_eq:
  "delete_key_redis k c =
     c\<lparr>memory_storage := (memory_storage c)(k := None),
       memory_expiry := (memory_expiry c)(k := None)\<rparr>"
  by (cases c) (auto simp: delete_key_redis_def Let_def fun_upd_idem)

lemma add_key_value_redis_600:
  "add_key_value_redis k v (Some 600) now c =
     c\<lparr>memory_storage := (memory_storage c)(k \<mapsto> v),
       memory_expiry := (memory_expiry c)(k \<mapsto> now + 600)\<rparr>"
  by (simp add: add_key_value_redis_def Let_def)

lemma get_after_delete:
  "get_value_redis k t (delete_key_redis k c) = (Inr None, delete_key_redis k c)"
  by (simp add: delete_key_redis_eq get_value_redis_def)

lemma get_after_add:
  "t \<le> now + 600 \<Longrightarrow>
   get_value_redis k t (add_key_value_redis k v (Some 600) now c) =
     (Inr (Some v), add_key_value_redis k v (Some 600) now c)"
  by (simp add: add_key_value_redis_600 get_value_redis_def)

lemma get_other_after_add:
  "k' \<noteq> k \<Longrightarrow>
   get_value_redis k' t (add_key_value_redis k v (Some 600) now (delete_key_redis k' c)) =
     (Inr None, add_key_value_redis k v (Some 600) now (delete_key_redis k' c))"
  by (simp add: add_key_value_redis_600 delete_key_redis_eq get_value_redis_def)

lemma state_key_not_credentials_key: "state_key a b \<noteq> credentials_key a' b'"
  by (simp add: state_key_def credentials_key_def)

subsection \<open>Steps of the handlers\<close>

lemma retrieve_after_delete:
  "get_hubspot_credentials lib t usr org (delete_key_redis (credentials_key org usr) c) =
     (Inl no_credentials_found, delete_key_redis (credentials_key org usr) c)"
  by (simp add: get_hubspot_credentials_def get_after_delete py_of_option_def)

lemma retrieve_success_store:
  assumes "get_hubspot_credentials lib t usr org c = (Inr j, c')"
  shows "c' = delete_key_redis (credentials_key org usr) c'"
  using assms
  by (auto simp: get_hubspot_credentials_def get_value_redis_def delete_key_redis_eq
      split: prod.splits sum.splits if_splits option.splits)

lemma retrieve_twice:
  assumes "get_hubspot_credentials lib t usr org c = (Inr j, c')"
  shows "get_hubspot_credentials lib t' usr org c' = (Inl no_credentials_found, c')"
  using retrieve_success_store[OF assms] retrieve_after_delete by metis

lemma retrieve_after_store:
  assumes "parse_json lib v = Some j" "v \<noteq> []" "truthy j" "t \<le> ta + 600"
  shows "get_hubspot_credentials lib t usr org
           (add_key_value_redis (credentials_key org usr) v (Some 600) ta c) =
         (Inr j, delete_key_redis (credentials_key org usr)
                   (add_key_value_redis (credentials_key org usr) v (Some 600) ta c))"
  using assms
  by (simp add: get_hubspot_credentials_def get_after_add py_of_option_def json_loads_def)

lemma accept_callback_cases:
  assumes "req ''state'' = Some s" "parse_json lib s = Some (JObj sd)"
  shows "accept_callback lib post tg ta req c =
     (case get_value_redis (state_key (py_str lib (dict_get sd ''org_id'' JNull))
                                      (py_str lib (dict_get sd ''user_id'' JNull))) tg c of
        (Inl e, c1) \<Rightarrow> (Inl (Uncaught e), c1)
      | (Inr saved_state, c1) \<Rightarrow>
          (case state_mismatch lib (py_of_option saved_state) (dict_get sd ''state'' JNull) of
             Inl e \<Rightarrow> (Inl (Uncaught e), c1)
           | Inr True \<Rightarrow> (Inl state_does_not_match, c1)
           | Inr False \<Rightarrow>
               exchange_and_store lib post ta (req ''code'')
                 (py_str lib (dict_get sd ''org_id'' JNull))
                 (py_str lib (dict_get sd ''user_id'' JNull)) c1))"
  using assms
  by (simp add: accept_callback_def json_loads_def py_of_option_def py_get_def and_then_def)

lemma exchange_and_store_success:
  assumes "exchange_and_store lib post ta cp org usr c = (Inr r, c1)"
  shows "\<exists>resp j. post (token_request cp) = Inr resp \<and> json_body resp = Some j \<and>
           c1 = add_key_value_redis (credentials_key org usr) (print_json lib j) (Some 600) ta
                  (delete_key_redis (state_key org usr) c)"
  using assms
  by (auto simp: exchange_and_store_def Let_def split: sum.splits option.splits)

lemma exchange_and_store_outcome:
  "fst (exchange_and_store lib post ta cp org usr c) =
     (case post (token_request cp) of
        Inl e \<Rightarrow> Inl (Uncaught e)
      | Inr resp \<Rightarrow>
          (case json_body resp of
             None \<Rightarrow> Inl (Uncaught JSONDecodeError)
           | Some j \<Rightarrow> Inr (HTMLResponse close_window_script)))"
  by (simp add: exchange_and_store_def Let_def split: sum.splits option.splits)

lemma exchange_and_store_not_mismatch:
  "fst (exchange_and_store lib post ta cp org usr c) \<noteq> Inl state_does_not_match"
  by (simp add: exchange_and_store_def Let_def state_does_not_match_def
      split: sum.splits option.splits)

lemma callback_success_store:
  assumes "oauth2callback_hubspot lib post tg ta req c = (Inr r, c1)"
    and "req ''state'' = Some s" "parse_json lib s = Some (JObj sd)"
    and "dict_get sd ''user_id'' JNull = JStr usr" "dict_get sd ''org_id'' JNull = JStr org"
  shows "\<exists>resp j c0. post (token_request (req ''code'')) = Inr resp \<and> json_body resp = Some j \<and>
           c1 = add_key_value_redis (credentials_key org usr) (print_json lib j) (Some 600) ta
                  (delete_key_redis (state_key org usr) c0)"
proof -
  have err: "req ''error'' = None \<or> req ''error'' = Some []"
    using assms(1) by (auto simp: oauth2callback_hubspot_def split: option.splits if_splits)
  have "accept_callback lib post tg ta req c = (Inr r, c1)"
    using assms(1) err by (auto simp: oauth2callback_hubspot_def)
  then obtain c0 where "exchange_and_store lib post ta (req ''code'') org usr c0 = (Inr r, c1)"
    using assms(2-5)
    by (auto simp: accept_callback_cases[where req=req and s=s and sd=sd] py_str_def
        split: prod.splits sum.splits bool.splits)
  from exchange_and_store_success[OF this] show ?thesis by blast
qed

subsection \<open>Credentials are handed out once\<close>

text \<open>
  C1, as amended. A callback has succeeded for the identifiers \<open>user_id\<close> and \<open>org_id\<close> of
  its state, where the token endpoint answered with the JSON value \<open>j\<close>, which
  \<^verbatim>\<open>json.loads\<close> reads back from what \<^verbatim>\<open>json.dumps\<close> printed. If \<open>j\<close> is truthy (a
  non-empty object, say) and the entry has not expired, \<^verbatim>\<open>get_hubspot_credentials\<close> returns
  \<open>j\<close> and deletes the entry, and the next call, at any time, fails with "No credentials
  found.". In every store, a call that follows a successful one fails so.
\<close>

theorem credentials_single_use:
  assumes stored: "oauth2callback_hubspot lib post tg ta req c = (Inr r, c1)"
    and state: "req ''state'' = Some s" "parse_json lib s = Some (JObj sd)"
      "dict_get sd ''user_id'' JNull = JStr user_id" "dict_get sd ''org_id'' JNull = JStr org_id"
    and token: "post (token_request (req ''code'')) = Inr resp" "json_body resp = Some j"
    and lib: "parse_json lib (print_json lib j) = Some j" "print_json lib j \<noteq> []"
    and nonempty: "truthy j"
    and soon: "t \<le> ta + 600"
  shows "get_hubspot_credentials lib t user_id org_id c1 =
           (Inr j, delete_key_redis (credentials_key org_id user_id) c1) \<and>
         get_hubspot_credentials lib t' user_id org_id
             (delete_key_redis (credentials_key org_id user_id) c1) =
           (Inl no_credentials_found, delete_key_redis (credentials_key org_id user_id) c1) \<and>
         (\<forall>lib0 t0 u0 o0 c0 v0 c0' t0'.
            get_hubspot_credentials lib0 t0 u0 o0 c0 = (Inr v0, c0') \<longrightarrow>
            get_hubspot_credentials lib0 t0' u0 o0 c0' = (Inl no_credentials_found, c0'))"
proof -
  from callback_success_store[OF stored state] token
  obtain c0 where c1: "c1 = add_key_value_redis (credentials_key org_id user_id)
      (print_json lib j) (Some 600) ta (delete_key_redis (state_key org_id user_id) c0)"
    by auto
  have first: "get_hubspot_credentials lib t user_id org_id c1 =
      (Inr j, delete_key_redis (credentials_key org_id user_id) c1)"
    unfolding c1 by (rule retrieve_after_store[OF lib nonempty soon])
  show ?thesis
    using first retrieve_after_delete retrieve_twice by blast
qed

theorem credentials_single_use_witness:
  "get_hubspot_credentials sample_lib 0 ''u'' ''o'' (after_callback sample_token) =
     (Inr sample_token,
      delete_key_redis (credentials_key ''o'' ''u'') (after_callback sample_token)) \<and>
   get_hubspot_credentials sample_lib 1 ''u'' ''o''
       (delete_key_redis (credentials_key ''o'' ''u'') (after_callback sample_token)) =
     (Inl no_credentials_found,
      delete_key_redis (credentials_key ''o'' ''u'') (after_callback sample_token))"
proof -
  have stored: "oauth2callback_hubspot sample_lib (token_endpoint sample_token) 0 0 sample_request
      sample_authorized = (Inr (HTMLResponse close_window_script), after_callback sample_token)"
    by (simp add: prod_eq_iff after_callback_def) (simp add: sample_defs model_defs Let_def)
  have state: "sample_request ''state'' = Some sample_state_doc"
    "parse_json sample_lib sample_state_doc =
       Some (JObj [(''state'', JStr ''n''), (''user_id'', JStr ''u''), (''org_id'', JStr ''o'')])"
    "dict_get [(''state'', JStr ''n''), (''user_id'', JStr ''u''), (''org_id'', JStr ''o'')]
       ''user_id'' JNull = JStr ''u''"
    "dict_get [(''state'', JStr ''n''), (''user_id'', JStr ''u''), (''org_id'', JStr ''o'')]
       ''org_id'' JNull = JStr ''o''"
    by (simp_all add: sample_defs state_data_of_def dict_get_def)
  have token: "token_endpoint sample_token (token_request (sample_request ''code'')) =
      Inr \<lparr>status_code = 200, json_body = Some sample_token\<rparr>"
    "json_body \<lparr>status_code = 200, json_body = Some sample_token\<rparr> = Some sample_token"
    by (simp_all add: token_endpoint_def)
  have lib: "parse_json sample_lib (print_json sample_lib sample_token) = Some sample_token"
    "print_json sample_lib sample_token \<noteq> []"
    by (simp_all add: sample_defs state_data_of_def)
  have nonempty: "truthy sample_token"
    by (simp add: sample_token_def)
  have soon: "(0::real) \<le> 0 + 600"
    by simp
  from credentials_single_use[where req=sample_request and t'=1,
      OF stored state token lib nonempty soon]
  show ?thesis by simp
qed

text \<open>
  C1 as stated fails: the token endpoint answers \<^verbatim>\<open>{}\<close>, the callback succeeds and stores
  \<^verbatim>\<open>'{}'\<close>, and the first retrieval fails with "No credentials found.", leaving the entry.
\<close>

theorem empty_credentials_counterexample:
  "fst (oauth2callback_hubspot sample_lib (token_endpoint (JObj [])) 0 0 sample_request
          sample_authorized) = Inr (HTMLResponse close_window_script) \<and>
   memory_storage (after_callback (JObj [])) (credentials_key ''o'' ''u'') = Some ''{}'' \<and>
   get_hubspot_credentials sample_lib 0 ''u'' ''o'' (after_callback (JObj [])) =
     (Inl no_credentials_found, after_callback (JObj []))"
  by (simp add: sample_defs model_defs Let_def)

subsection \<open>The state check of the callback\<close>

lemma py_eq_string: "py_eq a (JStr n) \<longleftrightarrow> a = JStr n"
  by (cases a) auto

lemma state_mismatch_entry:
  assumes "e \<noteq> []" "parse_json lib e = Some (JObj ed)"
  shows "state_mismatch lib (py_of_option (Some e)) original =
           Inr (\<not> py_eq original (dict_get ed ''state'' JNull))"
  using assms
  by (simp add: state_mismatch_def py_of_option_def json_loads_def py_get_def and_then_def)

lemma state_mismatch_absent: "state_mismatch lib (py_of_option None) original = Inr True"
  by (simp add: state_mismatch_def py_of_option_def)

text \<open>
  C2. A callback without an \<^verbatim>\<open>error\<close> parameter whose state parses to an object looks up
  the key made of the \<^verbatim>\<open>org_id\<close> and \<^verbatim>\<open>user_id\<close> of that object. Where the store
  holds under that key nothing or a serialized object, the callback fails with "State does not
  match." exactly when the lookup finds nothing, or the \<^verbatim>\<open>state\<close> of the stored object
  is not equal (\<^verbatim>\<open>!=\<close>) to the \<^verbatim>\<open>state\<close> that was presented. By \<open>py_eq_string\<close>,
  against a stored string that is plain inequality.
\<close>

theorem state_validation:
  assumes no_error: "req ''error'' = None \<or> req ''error'' = Some []"
    and state: "req ''state'' = Some s" "parse_json lib s = Some (JObj sd)"
    and lookup: "get_value_redis
                   (state_key (py_str lib (dict_get sd ''org_id'' JNull))
                              (py_str lib (dict_get sd ''user_id'' JNull))) tg c = (Inr saved, c1)"
    and entry: "\<And>e. saved = Some e \<Longrightarrow> e \<noteq> [] \<and> (\<exists>ed. parse_json lib e = Some (JObj ed))"
  shows "fst (oauth2callback_hubspot lib post tg ta req c) = Inl state_does_not_match \<longleftrightarrow>
           saved = None \<or>
           (\<exists>e ed. saved = Some e \<and> parse_json lib e = Some (JObj ed) \<and>
                   \<not> py_eq (dict_get sd ''state'' JNull) (dict_get ed ''state'' JNull))"
proof (cases saved)
  case None
  then show ?thesis
    using no_error state lookup
    by (auto simp: oauth2callback_hubspot_def state_mismatch_absent
        accept_callback_cases[where req=req and s=s and sd=sd])
next
  case (Some e)
  with entry obtain ed where e: "e \<noteq> []" "parse_json lib e = Some (JObj ed)"
    by blast
  show ?thesis
    using no_error state lookup Some e
    by (auto simp: oauth2callback_hubspot_def state_mismatch_entry
        exchange_and_store_not_mismatch
        accept_callback_cases[where req=req and s=s and sd=sd])
qed

theorem state_validation_witness:
  "fst (oauth2callback_hubspot sample_lib (token_endpoint sample_token) 0 0 forged_request
          sample_authorized) = Inl state_does_not_match \<and>
   fst (oauth2callback_hubspot sample_lib (token_endpoint sample_token) 0 0 sample_request
          empty_store) = Inl state_does_not_match \<and>
   fst (oauth2callback_hubspot sample_lib (token_endpoint sample_token) 0 0 sample_request
          sample_authorized) \<noteq> Inl state_does_not_match"
proof -
  have no_error: "forged_request ''error'' = None \<or> forged_request ''error'' = Some []"
    "sample_request ''error'' = None \<or> sample_request ''error'' = Some []"
    by (simp_all add: sample_defs)
  have forged: "forged_request ''state'' = Some forged_state_doc"
    "parse_json sample_lib forged_state_doc =
       Some (JObj [(''state'', JStr ''x''), (''user_id'', JStr ''u''), (''org_id'', JStr ''o'')])"
    by (simp_all add: sample_defs state_data_of_def)
  have sample: "sample_request ''state'' = Some sample_state_doc"
    "parse_json sample_lib sample_state_doc =
       Some (JObj [(''state'', JStr ''n''), (''user_id'', JStr ''u''), (''org_id'', JStr ''o'')])"
    by (simp_all add: sample_defs state_data_of_def)
  have present: "get_value_redis
      (state_key (py_str sample_lib (dict_get [(''state'', JStr v), (''user_id'', JStr ''u''),
                    (''org_id'', JStr ''o'')] ''org_id'' JNull))
                 (py_str sample_lib (dict_get [(''state'', JStr v), (''user_id'', JStr ''u''),
                    (''org_id'', JStr ''o'')] ''user_id'' JNull)))
      0 sample_authorized = (Inr (Some sample_state_doc), sample_authorized)" for v
    by (simp add: sample_defs model_defs Let_def)
  have absent: "get_value_redis
      (state_key (py_str sample_lib (dict_get [(''state'', JStr ''n''), (''user_id'', JStr ''u''),
                    (''org_id'', JStr ''o'')] ''org_id'' JNull))
                 (py_str sample_lib (dict_get [(''state'', JStr ''n''), (''user_id'', JStr ''u''),
                    (''org_id'', JStr ''o'')] ''user_id'' JNull)))
      0 empty_store = (Inr None, empty_store)"
    by (simp add: sample_defs model_defs Let_def)
  have entry: "Some sample_state_doc = Some e \<Longrightarrow>
      e \<noteq> [] \<and> (\<exists>ed. parse_json sample_lib e = Some (JObj ed))" for e
    by (auto simp: sample_defs state_data_of_def)
  have no_entry: "(None :: string option) = Some e \<Longrightarrow>
      e \<noteq> [] \<and> (\<exists>ed. parse_json sample_lib e = Some (JObj ed))" for e
    by simp
  note a = state_validation[where req=forged_request and post="token_endpoint sample_token"
      and ta=0, OF no_error(1) forged present entry]
  note b = state_validation[where req=sample_request and post="token_endpoint sample_token"
      and ta=0, OF no_error(2) sample absent no_entry]
  note c = state_validation[where req=sample_request and post="token_endpoint sample_token"
      and ta=0, OF no_error(2) sample present entry]
  show ?thesis
    using a b c by (simp add: sample_defs state_data_of_def dict_get_def)
qed

subsection \<open>From the authorization to the callback, and the callback again\<close>

lemma authorize_store:
  "snd (authorize_hubspot lib nonce t0 usr org c) =
     add_key_value_redis (state_key org usr) (print_json lib (state_data_of nonce usr org))
       (Some 600) t0 c"
  by (simp add: authorize_hubspot_def Let_def)

lemma state_data_fields:
  "dict_get [(''state'', JStr nonce), (''user_id'', JStr usr), (''org_id'', JStr org)] ''state'' JNull = JStr nonce"
  "dict_get [(''state'', JStr nonce), (''user_id'', JStr usr), (''org_id'', JStr org)] ''user_id'' JNull = JStr usr"
  "dict_get [(''state'', JStr nonce), (''user_id'', JStr usr), (''org_id'', JStr org)] ''org_id'' JNull = JStr org"
  by (simp_all add: dict_get_def)

lemma callback_after_authorize:
  assumes lib: "parse_json lib (print_json lib (state_data_of nonce usr org)) =
                  Some (state_data_of nonce usr org)"
      "print_json lib (state_data_of nonce usr org) \<noteq> []"
    and req: "req ''error'' = None \<or> req ''error'' = Some []"
      "req ''state'' = Some (print_json lib (state_data_of nonce usr org))"
    and soon: "tg \<le> t0 + 600"
  shows "oauth2callback_hubspot lib post tg ta req (snd (authorize_hubspot lib nonce t0 usr org c)) =
         exchange_and_store lib post ta (req ''code'') org usr
           (snd (authorize_hubspot lib nonce t0 usr org c))"
proof -
  have p: "parse_json lib (print_json lib (state_data_of nonce usr org)) =
      Some (JObj [(''state'', JStr nonce), (''user_id'', JStr usr), (''org_id'', JStr org)])"
    using lib(1) by (simp add: state_data_of_def)
  have "accept_callback lib post tg ta req (snd (authorize_hubspot lib nonce t0 usr org c)) =
      exchange_and_store lib post ta (req ''code'') org usr
        (snd (authorize_hubspot lib nonce t0 usr org c))"
    using lib(2) soon
    by (simp add: accept_callback_cases[where req=req, OF req(2) p] state_data_fields py_str_def
        authorize_store get_after_add state_mismatch_entry[OF lib(2) p])
  then show ?thesis
    using req(1) by (auto simp: oauth2callback_hubspot_def)
qed

lemma state_gone_after_exchange:
  "get_value_redis (state_key org usr) t (snd (exchange_and_store lib post ta cp org usr c)) =
     (Inr None, snd (exchange_and_store lib post ta cp org usr c))"
  by (simp add: exchange_and_store_def Let_def get_after_delete get_other_after_add
      state_key_not_credentials_key split: sum.splits option.splits)

lemma callback_on_consumed_state:
  assumes "req ''error'' = None \<or> req ''error'' = Some []"
    and "req ''state'' = Some s" "parse_json lib s = Some (JObj sd)"
    and "get_value_redis (state_key (py_str lib (dict_get sd ''org_id'' JNull))
                                    (py_str lib (dict_get sd ''user_id'' JNull))) tg c = (Inr None, c)"
  shows "oauth2callback_hubspot lib post tg ta req c = (Inl state_does_not_match, c)"
  using assms
  by (auto simp: oauth2callback_hubspot_def state_mismatch_absent
      accept_callback_cases[where req=req and s=s and sd=sd])

text \<open>
  C3. \<^verbatim>\<open>authorize_hubspot\<close> returns a URL that ends in \<^verbatim>\<open>&state=\<close> and a value \<open>st\<close>,
  which \<^verbatim>\<open>json.loads\<close> reads back. A callback that presents \<open>st\<close> within 600 seconds
  does not fail with "State does not match.", and succeeds when the token endpoint answers
  with JSON; the same callback on the store that this one left, at any time and whatever the
  token endpoint does, fails with "State does not match.".
\<close>

theorem authorize_callback_round_trip:
  assumes url: "fst (authorize_hubspot lib nonce t0 user_id org_id c) =
                  authorization_url @ ''&state='' @ st"
    and req: "req ''state'' = Some st" "req ''error'' = None"
    and lib: "parse_json lib st = Some (state_data_of nonce user_id org_id)" "st \<noteq> []"
    and soon: "tg \<le> t0 + 600"
  shows "fst (oauth2callback_hubspot lib post tg ta req
                (snd (authorize_hubspot lib nonce t0 user_id org_id c))) \<noteq>
           Inl state_does_not_match \<and>
         (\<forall>resp j. post (token_request (req ''code'')) = Inr resp \<and> json_body resp = Some j \<longrightarrow>
            fst (oauth2callback_hubspot lib post tg ta req
                   (snd (authorize_hubspot lib nonce t0 user_id org_id c))) =
              Inr (HTMLResponse close_window_script)) \<and>
         fst (oauth2callback_hubspot lib post' tg' ta' req
                (snd (oauth2callback_hubspot lib post tg ta req
                        (snd (authorize_hubspot lib nonce t0 user_id org_id c))))) =
           Inl state_does_not_match"
proof -
  let ?c1 = "snd (authorize_hubspot lib nonce t0 user_id org_id c)"
  have st: "st = print_json lib (state_data_of nonce user_id org_id)"
    using url by (simp add: authorize_hubspot_def Let_def)
  have first: "oauth2callback_hubspot lib post tg ta req ?c1 =
      exchange_and_store lib post ta (req ''code'') org_id user_id ?c1"
    using req lib soon unfolding st by (intro callback_after_authorize) simp_all
  have p: "parse_json lib st =
      Some (JObj [(''state'', JStr nonce), (''user_id'', JStr user_id), (''org_id'', JStr org_id)])"
    using lib(1) by (simp add: state_data_of_def)
  have second: "oauth2callback_hubspot lib post' tg' ta' req
        (snd (exchange_and_store lib post ta (req ''code'') org_id user_id ?c1)) =
      (Inl state_does_not_match, snd (exchange_and_store lib post ta (req ''code'') org_id user_id ?c1))"
    using req p
    by (intro callback_on_consumed_state[where req=req and s=st and
          sd="[(''state'', JStr nonce), (''user_id'', JStr user_id), (''org_id'', JStr org_id)]"])
      (simp_all add: state_data_fields py_str_def state_gone_after_exchange)
  have success: "post (token_request (req ''code'')) = Inr resp \<and> json_body resp = Some j \<longrightarrow>
      fst (exchange_and_store lib post ta (req ''code'') org_id user_id ?c1) =
        Inr (HTMLResponse close_window_script)" for resp j
    by (simp add: exchange_and_store_outcome)
  show ?thesis
    unfolding first using second success
    by (auto simp: exchange_and_store_not_mismatch)
qed

theorem authorize_callback_round_trip_witness:
  "fst (oauth2callback_hubspot sample_lib (token_endpoint sample_token) 0 0 sample_request
          sample_authorized) = Inr (HTMLResponse close_window_script) \<and>
   fst (oauth2callback_hubspot sample_lib (token_endpoint sample_token) 1 1 sample_request
          (after_callback sample_token)) = Inl state_does_not_match"
proof -
  have url: "fst (authorize_hubspot sample_lib ''n'' 0 ''u'' ''o'' empty_store) =
      authorization_url @ ''&state='' @ sample_state_doc"
    by (simp add: authorize_hubspot_def Let_def sample_defs state_data_of_def)
  have req: "sample_request ''state'' = Some sample_state_doc" "sample_request ''error'' = None"
    by (simp_all add: sample_defs)
  have lib: "parse_json sample_lib sample_state_doc = Some (state_data_of ''n'' ''u'' ''o'')"
    "sample_state_doc \<noteq> []"
    by (simp_all add: sample_defs)
  have soon: "(0::real) \<le> 0 + 600"
    by simp
  have token: "token_endpoint sample_token (token_request (sample_request ''code'')) =
      Inr \<lparr>status_code = 200, json_body = Some sample_token\<rparr> \<and>
      json_body \<lparr>status_code = 200, json_body = Some sample_token\<rparr> = Some sample_token"
    by (simp add: token_endpoint_def)
  from authorize_callback_round_trip[where req=sample_request
      and post="token_endpoint sample_token" and post'="token_endpoint sample_token"
      and ta=0 and tg'=1 and ta'=1, OF url req lib soon] token
  show ?thesis
    unfolding after_callback_def sample_authorized_def by blast
qed

subsection \<open>Fetching the items\<close>
















text \<open>
  C7. Credentials that parse to an object without \<^verbatim>\<open>access_token\<close>: the operation fails
  with "No access token found in credentials." and has made no request.
\<close>

theorem missing_access_token:
  assumes "json_loads lib credentials = Inr (JObj d)" "map_of d ''access_token'' = None"
  shows "get_items_hubspot lib http credentials = (Inl no_access_token, [])"
  using assms by (simp add: get_items_hubspot_def and_then_def py_get_def dict_get_def)

theorem missing_access_token_witness:
  "get_items_hubspot sample_lib companies_down (JStr ''{}'') = (Inl no_access_token, [])"
proof -
  have "json_loads sample_lib (JStr ''{}'') = Inr (JObj [])"
    by (simp add: json_loads_def sample_defs)
  moreover have "map_of ([] :: (string \<times> json) list) ''access_token'' = None"
    by simp
  ultimately show ?thesis
    by (rule missing_access_token)
qed

subsection \<open>Callbacks that are turned away before the state check\<close>

text \<open>
  C8, as amended. A callback whose \<^verbatim>\<open>error\<close> parameter is not the empty string fails with
  status 400 and that text; the store is the one it was given, and the outcome is the same for
  every store.
\<close>

theorem provider_error_leaves_store:
  assumes "req ''error'' = Some e" "e \<noteq> []"
  shows "oauth2callback_hubspot lib post tg ta req c = (Inl (HTTPException 400 (Text e)), c)"
  using assms by (simp add: oauth2callback_hubspot_def)

theorem provider_error_witness:
  "oauth2callback_hubspot sample_lib (token_endpoint sample_token) 0 0 denied_request
     sample_authorized =
   (Inl (HTTPException 400 (Text ''access_denied'')), sample_authorized)"
proof -
  have "denied_request ''error'' = Some ''access_denied''" "''access_denied'' \<noteq> []"
    by (simp_all add: denied_request_def)
  then show ?thesis
    by (rule provider_error_leaves_store[where req=denied_request])
qed

text \<open>
  C8 as stated fails: a callback that carries \<^verbatim>\<open>error=\<close> with an empty value, and a valid
  state, is processed to the end and consumes the state entry.
\<close>

theorem empty_error_counterexample:
  "empty_error_request ''error'' = Some [] \<and>
   fst (oauth2callback_hubspot sample_lib (token_endpoint sample_token) 0 0 empty_error_request
          sample_authorized) = Inr (HTMLResponse close_window_script) \<and>
   memory_storage sample_authorized (state_key ''o'' ''u'') = Some sample_state_doc \<and>
   memory_storage (snd (oauth2callback_hubspot sample_lib (token_endpoint sample_token) 0 0
                          empty_error_request sample_authorized)) (state_key ''o'' ''u'') = None"
  by (simp add: sample_defs model_defs Let_def)

text \<open>
  C9, as amended. A callback without a (non-empty) \<^verbatim>\<open>error\<close> parameter fails with an
  exception that nothing catches, and leaves the store as it was: a \<^verbatim>\<open>TypeError\<close> when
  there is no \<^verbatim>\<open>state\<close> parameter, a \<^verbatim>\<open>JSONDecodeError\<close> when the state is not JSON,
  an \<^verbatim>\<open>AttributeError\<close> when it is JSON but not an object.
\<close>

theorem malformed_state_uncaught:
  assumes "req ''error'' = None \<or> req ''error'' = Some []"
  shows "(req ''state'' = None \<longrightarrow>
            oauth2callback_hubspot lib post tg ta req c = (Inl (Uncaught TypeError), c)) \<and>
         (\<forall>s. req ''state'' = Some s \<and> parse_json lib s = None \<longrightarrow>
            oauth2callback_hubspot lib post tg ta req c = (Inl (Uncaught JSONDecodeError), c)) \<and>
         (\<forall>s v. req ''state'' = Some s \<and> parse_json lib s = Some v \<and> (\<forall>kvs. v \<noteq> JObj kvs) \<longrightarrow>
            oauth2callback_hubspot lib post tg ta req c = (Inl (Uncaught AttributeError), c))"
proof -
  have run: "oauth2callback_hubspot lib post tg ta req c = accept_callback lib post tg ta req c"
    using assms by (auto simp: oauth2callback_hubspot_def)
  show ?thesis
    unfolding run
    by (auto simp: accept_callback_def json_loads_def py_of_option_def py_get_def and_then_def
        split: json.splits)
qed

theorem malformed_state_witness:
  "oauth2callback_hubspot sample_lib (token_endpoint sample_token) 0 0 bare_request
     sample_authorized = (Inl (Uncaught TypeError), sample_authorized) \<and>
   oauth2callback_hubspot sample_lib (token_endpoint sample_token) 0 0 garbled_request
     sample_authorized = (Inl (Uncaught JSONDecodeError), sample_authorized) \<and>
   oauth2callback_hubspot sample_lib (token_endpoint sample_token) 0 0 list_request
     sample_authorized = (Inl (Uncaught AttributeError), sample_authorized)"
proof -
  have no_error: "bare_request ''error'' = None \<or> bare_request ''error'' = Some []"
    "garbled_request ''error'' = None \<or> garbled_request ''error'' = Some []"
    "list_request ''error'' = None \<or> list_request ''error'' = Some []"
    by (simp_all add: sample_defs)
  have bare: "bare_request ''state'' = None"
    by (simp add: sample_defs)
  have garbled: "garbled_request ''state'' = Some ''not json'' \<and>
      parse_json sample_lib ''not json'' = None"
    by (simp add: sample_defs)
  have listed: "list_request ''state'' = Some ''[]'' \<and>
      parse_json sample_lib ''[]'' = Some (JArr []) \<and> (\<forall>kvs. JArr [] \<noteq> JObj kvs)"
    by (simp add: sample_defs)
  note a = malformed_state_uncaught[where req=bare_request and lib=sample_lib
      and post="token_endpoint sample_token" and tg=0 and ta=0 and c=sample_authorized, OF no_error(1)]
  note b = malformed_state_uncaught[where req=garbled_request and lib=sample_lib
      and post="token_endpoint sample_token" and tg=0 and ta=0 and c=sample_authorized, OF no_error(2)]
  note c = malformed_state_uncaught[where req=list_request and lib=sample_lib
      and post="token_endpoint sample_token" and tg=0 and ta=0 and c=sample_authorized, OF no_error(3)]
  show ?thesis
    using a bare b garbled c listed by blast
qed

text \<open>
  C9 as stated fails: for a state that is not JSON, and for no state at all, the outcome is an
  uncaught exception, not an \<^verbatim>\<open>HTTPException\<close>.
\<close>

theorem malformed_state_counterexample:
  "fst (oauth2callback_hubspot sample_lib (token_endpoint sample_token) 0 0 garbled_request
          empty_store) = Inl (Uncaught JSONDecodeError) \<and>
   fst (oauth2callback_hubspot sample_lib (token_endpoint sample_token) 0 0 bare_request
          empty_store) = Inl (Uncaught TypeError)"
  by (simp add: sample_defs model_defs Let_def)

subsection \<open>Retrieved credentials are not what the fetch takes\<close>

text \<open>
  C10. \<^verbatim>\<open>get_items_hubspot\<close> applied to a dictionary, as \<^verbatim>\<open>get_hubspot_credentials\<close>
  returns it, ends with an uncaught \<^verbatim>\<open>TypeError\<close> before any request and before the check
  of the access token. Applied to the serialized dictionary, where \<^verbatim>\<open>json.loads\<close> reads
  it back, it raises no uncaught exception.
\<close>

theorem parsed_credentials_rejected:
  assumes "fst (get_hubspot_credentials lib t user_id org_id c) = Inr (JObj d)"
  shows "get_items_hubspot lib http (JObj d) = (Inl (Uncaught TypeError), []) \<and>
         (parse_json lib (print_json lib (JObj d)) = Some (JObj d) \<longrightarrow>
            (\<forall>e. fst (get_items_hubspot lib http (JStr (print_json lib (JObj d)))) \<noteq>
                   Inl (Uncaught e)))"
  by (auto simp: get_items_hubspot_def json_loads_def and_then_def py_get_def no_access_token_def
      split: prod.splits sum.splits)

theorem parsed_credentials_rejected_witness:
  "fst (get_hubspot_credentials sample_lib 0 ''u'' ''o'' (after_callback sample_token)) =
     Inr sample_token \<and>
   get_items_hubspot sample_lib companies_down sample_token = (Inl (Uncaught TypeError), []) \<and>
   fst (get_items_hubspot sample_lib companies_down (JStr (print_json sample_lib sample_token))) =
     Inl (HTTPException 500 (Error_fetching (TransportError ''timed out'')))"
proof -
  have got: "fst (get_hubspot_credentials sample_lib 0 ''u'' ''o'' (after_callback sample_token)) =
      Inr (JObj [(''access_token'', JStr ''t'')])"
    by (simp add: sample_defs model_defs Let_def)
  have fetched: "fst (get_items_hubspot sample_lib companies_down
      (JStr (print_json sample_lib sample_token))) =
      Inl (HTTPException 500 (Error_fetching (TransportError ''timed out'')))"
    by (simp add: fetch_defs fetch_sample_defs Let_def)
  from parsed_credentials_rejected[where http=companies_down, OF got] got fetched
  show ?thesis
    by (simp add: sample_token_def)
qed

end
